theory Spec2Isabelle
  imports Main "HOL-Library.Sublist" "HOL-Library.List_Lexorder" "HOL-Library.Char_ord"
begin

section \<open>screenshot.py: a shallow embedding\<close>

text \<open>
  The script \<^verbatim>\<open>scripts/screenshot.py\<close> reads a configuration file, resolves names
  through the CloudGenix SDK, drives a headless browser through a fixed list of pages and
  writes a tree of Markdown files. Python strings are modelled as \<^typ>\<open>string\<close>
  (a non-ASCII code point is its UTF-8 bytes, none of which is in the allow-list below).
\<close>

subsection \<open>Filename sanitizer\<close>

definition FILENAME_VALID_CHARS :: string where
  "FILENAME_VALID_CHARS = ''-_.() abcdefghijklmnopqrstuvwxyzABCDEFGHIJKLMNOPQRSTUVWXYZ0123456789''"

text \<open>\<^verbatim>\<open>''.join(char for char in file_name if char in FILENAME_VALID_CHARS)\<close>\<close>

definition sanitize_filename :: "string \<Rightarrow> string" where
  "sanitize_filename file_name = filter (\<lambda>char. char \<in> set FILENAME_VALID_CHARS) file_name"

text \<open>
  The allow-list as the specification words it: the six punctuation marks
  \<^verbatim>\<open>-_.() \<close>, the ASCII letters and the ASCII digits, the last two given by their
  code ranges rather than by enumeration.
\<close>

definition spec_allowed :: "char \<Rightarrow> bool" where
  "spec_allowed c =
     (c \<in> set ''-_.() ''
      \<or> (97 \<le> (of_char c :: nat) \<and> (of_char c :: nat) \<le> 122)
      \<or> (65 \<le> (of_char c :: nat) \<and> (of_char c :: nat) \<le> 90)
      \<or> (48 \<le> (of_char c :: nat) \<and> (of_char c :: nat) \<le> 57))"

subsection \<open>Python values, errors and text helpers\<close>

text \<open>
  Exceptions the script can meet. \<open>FileNotFoundError\<close> and \<open>IsADirectoryError\<close> are
  subclasses of \<open>IOError\<close> (\<open>OSError\<close>) in Python 3, which \<open>is_IOError\<close> records for the \<^verbatim>\<open>except IOError\<close>
  clause.
\<close>

datatype pyerr =
    ValueError string
  | TimeoutException
  | AttributeError string
  | IOError string
  | FileNotFoundError string
  | IsADirectoryError string
  | YAMLError string

fun is_IOError :: "pyerr \<Rightarrow> bool" where
  "is_IOError (IOError _) = True"
| "is_IOError (FileNotFoundError _) = True"
| "is_IOError (IsADirectoryError _) = True"
| "is_IOError _ = False"

fun err_msg :: "pyerr \<Rightarrow> string" where
  "err_msg (ValueError m) = m"
| "err_msg TimeoutException = []"
| "err_msg (AttributeError m) = m"
| "err_msg (IOError m) = m"
| "err_msg (FileNotFoundError m) = m"
| "err_msg (IsADirectoryError m) = m"
| "err_msg (YAMLError m) = m"

text \<open>The dynamically typed argument \<open>waitfor\<close> (\<^verbatim>\<open>isinstance(waitfor, str)\<close>).\<close>

datatype pyval = PyNone | PyInt int | PyStr string

text \<open>
  \<^verbatim>\<open>str.lower\<close> on the ASCII letters. The script only compares the result with the
  ASCII words \<^verbatim>\<open>class\<close>, \<^verbatim>\<open>id\<close>, \<^verbatim>\<open>time\<close> and the four colour names.
\<close>

definition lower_char :: "char \<Rightarrow> char" where
  "lower_char c =
     (if 65 \<le> (of_char c :: nat) \<and> (of_char c :: nat) \<le> 90
      then char_of ((of_char c :: nat) + 32) else c)"

definition lower :: "string \<Rightarrow> string" where
  "lower s = map lower_char s"

text \<open>\<^verbatim>\<open>str(n)\<close> for a non-negative integer, used by \<^verbatim>\<open>format\<close>.\<close>

fun str_nat :: "nat \<Rightarrow> string" where
  "str_nat n =
     (if n < 10 then [char_of (48 + n)]
      else str_nat (n div 10) @ [char_of (48 + n mod 10)])"

declare str_nat.simps [simp del]

definition str_int :: "int \<Rightarrow> string" where
  "str_int i = (if i < 0 then CHR ''-'' # str_nat (nat (- i)) else str_nat (nat i))"

fun py_str :: "pyval \<Rightarrow> string" where
  "py_str PyNone = ''None''"
| "py_str (PyInt i) = str_int i"
| "py_str (PyStr s) = s"

text \<open>
  Python's built-in \<^verbatim>\<open>int(val)\<close> is not code of this repository, and how it reads a
  string is the interpreter's business (signs, surrounding whitespace, underscores, the
  decimal digits of every script, a limit on the number of digits). It is a parameter
  \<open>py_int\<close> of the model: for a string it gives the integer, or \<open>None\<close> where \<^verbatim>\<open>int\<close>
  raises \<^verbatim>\<open>ValueError\<close>, the only exception \<^verbatim>\<open>int\<close> has for a string. Whatever is proved
  holds for every such function, the interpreter's own among them.
\<close>

type_synonym int_cast = "string \<Rightarrow> int option"

text \<open>
  \<^verbatim>\<open>try: _ = int(val)  except ValueError: return False;  return True\<close>
\<close>

definition is_int :: "int_cast \<Rightarrow> string \<Rightarrow> bool" where
  "is_int py_int val = (case py_int val of None \<Rightarrow> False | Some _ \<Rightarrow> True)"

text \<open>Truthiness of an optional string (\<^verbatim>\<open>if click_xpath or click_xpath2\<close>, \<^verbatim>\<open>if CI_COMMIT\<close>).\<close>

fun truthy :: "string option \<Rightarrow> bool" where
  "truthy None = False"
| "truthy (Some s) = (s \<noteq> [])"

subsection \<open>The world outside the script\<close>

text \<open>
  Everything the script does to its surroundings is an event, and a run is the list of
  its events in order. The two lines of output that print clock readings
  (\<^verbatim>\<open>time.perf_counter\<close>) are events of their own, since their text is not modelled.
\<close>

datatype locator = By_CLASS_NAME | By_ID

datatype event =
    Stdout string
  | StdoutElapsed
  | StdoutCompleted string
  | ChromeStart
  | DriverGet string
  | WaitUntil locator string nat
  | Sleep nat
  | ImplicitlyWait nat
  | FindElementsByXpath string
  | Click string
  | GetScreenshotAsFile string
  | SetWindowSize nat nat
  | DriverClose
  | Mkdir string
  | WriteFile string string

type_synonym trace = "event list"

text \<open>A procedure that may raise: the exception if any, and the events so far.\<close>

type_synonym step = "trace \<Rightarrow> pyerr option \<times> trace"

text \<open>
  The browser is an opaque collaborator. What it answers may depend on everything that
  happened before, so each answer is a function of the events so far (the request
  included): whether the awaited DOM element appears before the timeout, and how many
  elements an XPath query returns. Navigation, a click on a found element and the
  screenshot call are taken to return normally.
\<close>

record browser =
  wait_found :: "trace \<Rightarrow> bool"
  xpath_count :: "trace \<Rightarrow> nat"

subsection \<open>Console output\<close>

text \<open>\<^verbatim>\<open>ci_print(text, end="\n", color=None)\<close>: one write to standard output, then a flush.\<close>

definition ci_print :: "string \<Rightarrow> string \<Rightarrow> string option \<Rightarrow> trace \<Rightarrow> trace" where
  "ci_print text end color tr =
     (let red = CHR 0x1B # ''[0;31m'';
          green = CHR 0x1B # ''[0;32m'';
          yellow = CHR 0x1B # ''[1;33m'';
          white = CHR 0x1B # ''[1;37m'';
          nc = CHR 0x1B # ''[0m'';
          output =
            (case color of
               Some c \<Rightarrow>
                 if lower c = ''red'' then red @ text @ end @ nc
                 else if lower c = ''yellow'' then yellow @ text @ end @ nc
                 else if lower c = ''green'' then green @ text @ end @ nc
                 else if lower c = ''white'' then white @ text @ end @ nc
                 else text @ end
             | None \<Rightarrow> text @ end)
      in tr @ [Stdout output])"

definition nl :: string where
  "nl = ''\<newline>''"

subsection \<open>Page capture\<close>

definition DEFAULT_IMPLICIT_WAIT :: nat where
  "DEFAULT_IMPLICIT_WAIT = 25"

text \<open>
  \<^verbatim>\<open>time.sleep(secs)\<close> raises \<^verbatim>\<open>ValueError\<close> on a negative argument. (CPython's
  \<^verbatim>\<open>OverflowError\<close> for a duration beyond the range of its clock is not modelled.)
\<close>

definition time_sleep :: "int \<Rightarrow> step" where
  "time_sleep secs tr =
     (if secs < 0 then (Some (ValueError ''sleep length must be non-negative''), tr)
      else (None, tr @ [Sleep (nat secs)]))"

text \<open>
  \<^verbatim>\<open>WebDriverWait(sel_driver, load_wait).until(EC.presence_of_element_located((by, value)))\<close>
\<close>

definition until :: "browser \<Rightarrow> locator \<Rightarrow> string \<Rightarrow> nat \<Rightarrow> step" where
  "until sel_driver by_what by_value load_wait tr =
     (let tr1 = tr @ [WaitUntil by_what by_value load_wait]
      in if wait_found sel_driver tr1 then (None, tr1) else (Some TimeoutException, tr1))"

text \<open>The body of the \<^verbatim>\<open>try\<close> block of \<open>screenshot_page\<close>: load the page, then wait.\<close>

definition load_and_wait ::
  "int_cast \<Rightarrow> string \<Rightarrow> browser \<Rightarrow> pyval \<Rightarrow> string \<Rightarrow> nat \<Rightarrow> step" where
  "load_and_wait py_int page_uri sel_driver waitfor waitfor_value load_wait tr =
     (let tr1 = tr @ [DriverGet page_uri]
      in case waitfor of
           PyStr w \<Rightarrow>
             if lower w = ''class'' then until sel_driver By_CLASS_NAME waitfor_value load_wait tr1
             else if lower w = ''id'' then until sel_driver By_ID waitfor_value load_wait tr1
             else if lower w = ''time'' then
               (if is_int py_int waitfor_value then
                  (case py_int waitfor_value of
                     Some secs \<Rightarrow> time_sleep secs tr1
                   | None \<Rightarrow> (Some (ValueError waitfor_value), tr1))
                else (None, tr1))
             else (None, tr1)
         | _ \<Rightarrow> (None, tr1))"

text \<open>
  One click block: \<^verbatim>\<open>find_elements_by_xpath(xpath)[0]\<close> raises \<^verbatim>\<open>IndexError\<close> on an
  empty result, which the block catches and ignores. The state is
  \<open>(click_succeeded, click_requested, trace)\<close>.
\<close>

definition try_click :: "browser \<Rightarrow> string option \<Rightarrow> nat \<times> nat \<times> trace \<Rightarrow> nat \<times> nat \<times> trace" where
  "try_click driver click_xpath s =
     (case click_xpath of
        None \<Rightarrow> s
      | Some xpath \<Rightarrow>
          (case s of
             (click_succeeded, click_requested, tr) \<Rightarrow>
               let tr1 = tr @ [FindElementsByXpath xpath]
               in if xpath_count driver tr1 = 0
                  then (click_succeeded, click_requested + 1, tr1)
                  else (click_succeeded + 1, click_requested + 1, tr1 @ [Click xpath])))"

text \<open>
  The part of \<open>screenshot_page\<close> after the \<^verbatim>\<open>try\<close> statement: both click blocks with the
  implicit wait set to zero, the click status line, the settle delay and the screenshot.
\<close>

definition click_and_capture ::
  "browser \<Rightarrow> string \<Rightarrow> string option \<Rightarrow> string option \<Rightarrow> nat \<Rightarrow> step" where
  "click_and_capture driver output_filename click_xpath click_xpath2 load_tweak_delay tr =
     (case try_click driver click_xpath2
             (try_click driver click_xpath (0, 0, tr @ [ImplicitlyWait 0])) of
        (click_succeeded, click_requested, tr2) \<Rightarrow>
          let tr3 =
                (if truthy click_xpath \<or> truthy click_xpath2
                 then ci_print (''Click('' @ str_nat click_succeeded @ '' of ''
                                @ str_nat click_requested @ '' succeeded) '') [] None tr2
                 else tr2);
              tr4 = tr3 @ [ImplicitlyWait DEFAULT_IMPLICIT_WAIT]
          in case time_sleep (int load_tweak_delay) tr4 of
               (Some e, tr5) \<Rightarrow> (Some e, tr5)
             | (None, tr5) \<Rightarrow> (None, tr5 @ [GetScreenshotAsFile output_filename, StdoutElapsed]))"

text \<open>
  \<^verbatim>\<open>screenshot_page(page_uri, sel_driver, output_filename, waitfor, waitfor_value,
  click_xpath, click_xpath2, load_wait, load_tweak_delay)\<close>. Only \<^verbatim>\<open>TimeoutException\<close>
  is caught; any other exception of the \<^verbatim>\<open>try\<close> block leaves the function. The function
  reads the module's global \<^verbatim>\<open>driver\<close> after the \<^verbatim>\<open>try\<close> statement; every caller
  passes that same object as \<open>sel_driver\<close>. The durations \<open>load_wait\<close> and
  \<open>load_tweak_delay\<close> are numbers of seconds. The first argument of the model is the
  built-in \<^verbatim>\<open>int\<close>.
\<close>

definition timeout_warning :: "string \<Rightarrow> pyval \<Rightarrow> string \<Rightarrow> nat \<Rightarrow> string" where
  "timeout_warning page_uri waitfor waitfor_value load_wait =
     ''WARNING: Loading Page '' @ page_uri @ '', waiting for '' @ py_str waitfor @ '' ''
     @ [CHR 0x27] @ waitfor_value @ [CHR 0x27] @ '' took longer than '' @ str_nat load_wait
     @ '' seconds. Saving data that exists.''"

definition screenshot_page ::
  "int_cast \<Rightarrow> string \<Rightarrow> browser \<Rightarrow> string \<Rightarrow> pyval \<Rightarrow> string \<Rightarrow> string option
     \<Rightarrow> string option \<Rightarrow> nat \<Rightarrow> nat \<Rightarrow> step" where
  "screenshot_page py_int page_uri sel_driver output_filename waitfor waitfor_value click_xpath
       click_xpath2 load_wait load_tweak_delay tr =
     (case load_and_wait py_int page_uri sel_driver waitfor waitfor_value load_wait tr of
        (None, tr1) \<Rightarrow>
          click_and_capture sel_driver output_filename click_xpath click_xpath2
            load_tweak_delay tr1
      | (Some e, tr1) \<Rightarrow>
          if e = TimeoutException
          then click_and_capture sel_driver output_filename click_xpath click_xpath2
                 load_tweak_delay
                 (ci_print (timeout_warning page_uri waitfor waitfor_value load_wait) nl
                    (Some ''yellow'') tr1)
          else (Some e, tr1))"

text \<open>Events that a click block or the click status line can produce.\<close>

fun is_click_event :: "event \<Rightarrow> bool" where
  "is_click_event (FindElementsByXpath _) = True"
| "is_click_event (Click _) = True"
| "is_click_event (Stdout _) = True"
| "is_click_event _ = False"

subsection \<open>Build information from the CI environment\<close>

record ci_info =
  CI_SYSTEM :: "string option"
  CI_COMMIT :: "string option"
  CI_BUILD_ID :: "string option"
  CI_BUILD_URL :: "string option"

text \<open>
  The module-level detection of Travis CI, then Jenkins; \<^verbatim>\<open>os.environ.get\<close> gives
  \<^verbatim>\<open>None\<close> for a variable that is not set.
\<close>

definition ci_detect :: "(string \<rightharpoonup> string) \<Rightarrow> ci_info" where
  "ci_detect env =
     (if env ''TRAVIS_BUILD_NUMBER'' \<noteq> None \<and> env ''TRAVIS_BUILD_WEB_URL'' \<noteq> None then
        \<lparr>CI_SYSTEM = Some ''Travis CI'', CI_COMMIT = env ''TRAVIS_COMMIT'',
         CI_BUILD_ID = env ''TRAVIS_BUILD_NUMBER'', CI_BUILD_URL = env ''TRAVIS_BUILD_WEB_URL''\<rparr>
      else if env ''BUILD_ID'' \<noteq> None \<and> env ''BUILD_URL'' \<noteq> None then
        \<lparr>CI_SYSTEM = Some ''Jenkins'', CI_COMMIT = env ''GIT_COMMIT'',
         CI_BUILD_ID = env ''BUILD_NUMBER'', CI_BUILD_URL = env ''BUILD_URL''\<rparr>
      else
        \<lparr>CI_SYSTEM = None, CI_COMMIT = None, CI_BUILD_ID = None, CI_BUILD_URL = None\<rparr>)"

subsection \<open>The configuration file and the sites-to-elements map\<close>

text \<open>
  What \<^verbatim>\<open>yaml.safe_load\<close> returns. A mapping is a Python \<^verbatim>\<open>dict\<close>: its items in
  insertion (file) order, with keys that are pairwise distinct. Site and element names are
  the string keys of such mappings.
\<close>

datatype yaml = YNull | YScalar string | YSeq "yaml list" | YDict "(string \<times> yaml) list"

text \<open>\<^verbatim>\<open>d.items()\<close>; a value that is not a mapping has no such attribute.\<close>

fun py_items :: "yaml \<Rightarrow> pyerr + (string \<times> yaml) list" where
  "py_items (YDict kvs) = Inr kvs"
| "py_items _ = Inl (AttributeError ''object has no attribute 'items' '')"

text \<open>
  \<^verbatim>\<open>d[k] = v\<close> on a \<^verbatim>\<open>dict\<close> held as the list of its items: an existing key keeps
  its position and takes the new value, a new key goes to the end.
\<close>

fun dict_setitem :: "('k \<times> 'v) list \<Rightarrow> 'k \<Rightarrow> 'v \<Rightarrow> ('k \<times> 'v) list" where
  "dict_setitem [] k v = [(k, v)]"
| "dict_setitem ((k', v') # d) k v =
     (if k' = k then (k, v) # d else (k', v') # dict_setitem d k v)"

text \<open>
  \<^verbatim>\<open>config_lower_version_get(root, key, sdk_func)\<close> belongs to the package
  \<^verbatim>\<open>cloudgenix_config\<close>, not to this repository: it is a parameter \<open>clvg\<close>, giving the
  configuration found under the versioned key (the API version it also returns is never
  used).
\<close>

type_synonym version_get = "yaml \<Rightarrow> string \<Rightarrow> pyerr + yaml"

text \<open>The inner loop: \<^verbatim>\<open>elements_list.append(element)\<close> for every item.\<close>

definition elements_of :: "version_get \<Rightarrow> yaml \<Rightarrow> pyerr + string list" where
  "elements_of clvg config_site_cnf =
     (case clvg config_site_cnf ''elements'' of
        Inl e \<Rightarrow> Inl e
      | Inr config_elements \<Rightarrow>
          (case py_items config_elements of
             Inl e \<Rightarrow> Inl e
           | Inr kvs \<Rightarrow>
               Inr (foldl (\<lambda>elements_list (element, config_element_cnf).
                             elements_list @ [element]) [] kvs)))"

text \<open>The outer loop: \<^verbatim>\<open>sites_dict[site] = elements_list\<close> for every site.\<close>

fun sites_loop ::
  "version_get \<Rightarrow> (string \<times> yaml) list \<Rightarrow> (string \<times> string list) list
     \<Rightarrow> pyerr + (string \<times> string list) list" where
  "sites_loop clvg [] sites_dict = Inr sites_dict"
| "sites_loop clvg ((site, config_site_cnf) # rest) sites_dict =
     (case elements_of clvg config_site_cnf of
        Inl e \<Rightarrow> Inl e
      | Inr elements_list \<Rightarrow> sites_loop clvg rest (dict_setitem sites_dict site elements_list))"

definition build_sites_dict ::
  "version_get \<Rightarrow> yaml \<Rightarrow> pyerr + (string \<times> string list) list" where
  "build_sites_dict clvg loaded_config =
     (case clvg loaded_config ''sites'' of
        Inl e \<Rightarrow> Inl e
      | Inr config_sites \<Rightarrow>
          (case py_items config_sites of
             Inl e \<Rightarrow> Inl e
           | Inr kvs \<Rightarrow> sites_loop clvg kvs []))"

text \<open>
  For the statement of the property: the element names a site's configuration declares, in
  file order (empty where the site has no readable element mapping).
\<close>

definition declared_elements :: "version_get \<Rightarrow> yaml \<Rightarrow> string list" where
  "declared_elements clvg config_site_cnf =
     (case clvg config_site_cnf ''elements'' of
        Inr (YDict els) \<Rightarrow> map fst els
      | _ \<Rightarrow> [])"

definition has_elements :: "version_get \<Rightarrow> yaml \<Rightarrow> bool" where
  "has_elements clvg config_site_cnf =
     (case clvg config_site_cnf ''elements'' of
        Inr (YDict els) \<Rightarrow> True
      | _ \<Rightarrow> False)"

subsection \<open>The surroundings of a run\<close>

text \<open>An interface as the SDK lists it (\<^verbatim>\<open>iface['id']\<close>, \<^verbatim>\<open>iface['name']\<close>).\<close>

record interface_record =
  iface_id :: string
  iface_name :: string

text \<open>
  What a run meets: the environment variables, the command line, the result of opening
  and parsing the configuration file, the built-in \<^verbatim>\<open>int\<close>, the external version lookup,
  what the SDK answers
  (the region, the two name-to-ID tables, the interfaces of an element), the browser,
  and the directories that exist when the run starts (each a list of path components).
\<close>

record world =
  environ :: "string \<rightharpoonup> string"
  argv :: "string list"
  load_config :: "string \<Rightarrow> pyerr + yaml"
  builtin_int :: int_cast
  config_lower_version_get :: version_get
  controller_region :: string
  sites_n2id :: "string \<rightharpoonup> string"
  elements_n2id :: "string \<rightharpoonup> string"
  get_interfaces :: "string \<Rightarrow> string \<Rightarrow> interface_record list"
  driver :: browser
  existing_dirs :: "string list set"

text \<open>The markdown index: sites, their elements, their interfaces.\<close>

record md_interface =
  if_name :: string
  if_fs_name :: string

record md_element =
  el_name :: string
  el_fs_name :: string
  el_interfaces :: "md_interface list"

record md_site =
  st_name :: string
  st_fs_name :: string
  st_elements :: "md_element list"

subsection \<open>Portal pages\<close>

text \<open>
  The page addresses: each format string with \<^verbatim>\<open>.format(region, ...)\<close> applied, the
  identifiers being the strings of the SDK's lookup tables.
\<close>

definition UI_TOPOLOGY_PAGE :: "string \<Rightarrow> string" where
  "UI_TOPOLOGY_PAGE region =
     ''https://portal.'' @ region @ ''.cloudgenix.com/#map''"

definition UI_SITE_PAGE :: "string \<Rightarrow> string \<Rightarrow> string" where
  "UI_SITE_PAGE region site_id =
     ''https://portal.'' @ region @ ''.cloudgenix.com/#map/site/'' @ site_id"

definition UI_ELEMENT_BASIC :: "string \<Rightarrow> string \<Rightarrow> string" where
  "UI_ELEMENT_BASIC region element_id =
     ''https://portal.'' @ region @ ''.cloudgenix.com/#element/config/'' @ element_id @ ''/basic_info''"

definition UI_ELEMENT_TOOLKIT :: "string \<Rightarrow> string \<Rightarrow> string" where
  "UI_ELEMENT_TOOLKIT region element_id =
     ''https://portal.'' @ region @ ''.cloudgenix.com/#element/config/'' @ element_id @ ''/device_toolkit''"

definition UI_ELEMENT_INTERFACES :: "string \<Rightarrow> string \<Rightarrow> string" where
  "UI_ELEMENT_INTERFACES region element_id =
     ''https://portal.'' @ region @ ''.cloudgenix.com/#element/config/'' @ element_id @ ''/interfaces''"

definition UI_ELEMENT_BGPPEERS :: "string \<Rightarrow> string \<Rightarrow> string" where
  "UI_ELEMENT_BGPPEERS region element_id =
     ''https://portal.'' @ region @ ''.cloudgenix.com/#element/config/'' @ element_id @ ''/routing/bgp:peers''"

definition UI_ELEMENT_BGPROUTEMAPS :: "string \<Rightarrow> string \<Rightarrow> string" where
  "UI_ELEMENT_BGPROUTEMAPS region element_id =
     ''https://portal.'' @ region @ ''.cloudgenix.com/#element/config/'' @ element_id @ ''/routing/bgp:route_maps''"

definition UI_ELEMENT_BGPPREFIXLISTS :: "string \<Rightarrow> string \<Rightarrow> string" where
  "UI_ELEMENT_BGPPREFIXLISTS region element_id =
     ''https://portal.'' @ region @ ''.cloudgenix.com/#element/config/'' @ element_id @ ''/routing/bgp:prefix_lists''"

definition UI_ELEMENT_BGPASPATHACL :: "string \<Rightarrow> string \<Rightarrow> string" where
  "UI_ELEMENT_BGPASPATHACL region element_id =
     ''https://portal.'' @ region @ ''.cloudgenix.com/#element/config/'' @ element_id @ ''/routing/bgp:as_path_lists''"

definition UI_ELEMENT_BGPIPCOMMUNITYLISTS :: "string \<Rightarrow> string \<Rightarrow> string" where
  "UI_ELEMENT_BGPIPCOMMUNITYLISTS region element_id =
     ''https://portal.'' @ region @ ''.cloudgenix.com/#element/config/'' @ element_id @ ''/routing/bgp:ip_community_lists''"

definition UI_ELEMENT_STATICROUTES :: "string \<Rightarrow> string \<Rightarrow> string" where
  "UI_ELEMENT_STATICROUTES region element_id =
     ''https://portal.'' @ region @ ''.cloudgenix.com/#element/config/'' @ element_id @ ''/routing/static_routes''"

definition UI_ELEMENT_SNMP :: "string \<Rightarrow> string \<Rightarrow> string" where
  "UI_ELEMENT_SNMP region element_id =
     ''https://portal.'' @ region @ ''.cloudgenix.com/#element/config/'' @ element_id @ ''/snmp''"

definition UI_ELEMENT_SYSLOG :: "string \<Rightarrow> string \<Rightarrow> string" where
  "UI_ELEMENT_SYSLOG region element_id =
     ''https://portal.'' @ region @ ''.cloudgenix.com/#element/config/'' @ element_id @ ''/syslog_export''"

definition UI_ELEMENT_NTP :: "string \<Rightarrow> string \<Rightarrow> string" where
  "UI_ELEMENT_NTP region element_id =
     ''https://portal.'' @ region @ ''.cloudgenix.com/#element/config/'' @ element_id @ ''/ntp_client''"

definition UI_INTERFACES_DETAIL :: "string \<Rightarrow> string \<Rightarrow> string \<Rightarrow> string" where
  "UI_INTERFACES_DETAIL region element_id interface_id =
     ''https://portal.'' @ region @ ''.cloudgenix.com/#element/config/'' @ element_id @ ''/interfaces/'' @ interface_id"

definition XPATH_1_INTERFACE_EXPANDS :: string where
  "XPATH_1_INTERFACE_EXPANDS =
     ''/html/body/div[1]/section/div/div[2]/div/div/div[2]/div/div/div[3]/div''
     @ ''/div/form/div[2]/div/div/div[1]/a''"

definition XPATH_2_INTERFACE_EXPANDS :: string where
  "XPATH_2_INTERFACE_EXPANDS =
     ''/html/body/div[1]/section/div/div[2]/div/div/div[2]/div/div/div[3]/div''
     @ ''/div/form/div[3]/div/div/div[1]/a''"

definition XPATH_CLOSE_WHATS_NEW :: string where
  "XPATH_CLOSE_WHATS_NEW =
     ''/html/body/div[1]/div[4]/div/div/img''"

subsection \<open>The capture loop\<close>

text \<open>Sequencing of procedures that may raise; the first exception ends the sequence.\<close>

fun run_steps :: "step list \<Rightarrow> step" where
  "run_steps [] tr = (None, tr)"
| "run_steps (s # ss) tr =
     (case s tr of
        (None, tr1) \<Rightarrow> run_steps ss tr1
      | (Some e, tr1) \<Rightarrow> (Some e, tr1))"

definition say :: "string \<Rightarrow> string \<Rightarrow> string option \<Rightarrow> step" where
  "say text end color tr = (None, ci_print text end color tr)"

definition act :: "event \<Rightarrow> step" where
  "act e tr = (None, tr @ [e])"

definition quoted :: "string \<Rightarrow> string" where
  "quoted s = CHR 0x27 # s @ [CHR 0x27]"

text \<open>
  The twelve element pages, in the order of the script. Each call of \<open>screenshot_page\<close>
  passes \<^verbatim>\<open>waitfor="class"\<close> and leaves \<open>load_wait\<close> (15) and \<open>load_tweak_delay\<close> (1) at
  their defaults, but for the first page, which waits up to 60 seconds.
\<close>

definition element_pages ::
  "int_cast \<Rightarrow> browser \<Rightarrow> string \<Rightarrow> string \<Rightarrow> string \<Rightarrow> string \<Rightarrow> step" where
  "element_pages py_int drv region element_name element_id element_directory =
     run_steps
       [say (''      Taking Screenshot of Element '' @ quoted element_name @ '' Static Routes: '') [] None,
        screenshot_page py_int (UI_ELEMENT_STATICROUTES region element_id) drv
          (element_directory @ ''static_routes.png'') (PyStr ''class'') ''static-routing-table'' None None 60 1,
        say ''Done'' nl (Some ''green''),
        say (''      Taking Screenshot of Element '' @ quoted element_name @ '' Basic Config: '') [] None,
        screenshot_page py_int (UI_ELEMENT_BASIC region element_id) drv
          (element_directory @ ''basic_info.png'') (PyStr ''class'') ''form-group'' None None 15 1,
        say ''Done'' nl (Some ''green''),
        say (''      Taking Screenshot of Element '' @ quoted element_name @ '' BGP Peers: '') [] None,
        screenshot_page py_int (UI_ELEMENT_BGPPEERS region element_id) drv
          (element_directory @ ''bgp_peers.png'') (PyStr ''class'') ''bgpPeersTable'' None None 15 1,
        say ''Done'' nl (Some ''green''),
        say (''      Taking Screenshot of Element '' @ quoted element_name @ '' Device Toolkit: '') [] None,
        screenshot_page py_int (UI_ELEMENT_TOOLKIT region element_id) drv
          (element_directory @ ''device_toolkit.png'') (PyStr ''class'') ''form-group'' None None 15 1,
        say ''Done'' nl (Some ''green''),
        say (''      Taking Screenshot of Element '' @ quoted element_name @ '' BGP Route Maps: '') [] None,
        screenshot_page py_int (UI_ELEMENT_BGPROUTEMAPS region element_id) drv
          (element_directory @ ''bgp_route_maps.png'') (PyStr ''class'') ''routeMapsTable'' None None 15 1,
        say ''Done'' nl (Some ''green''),
        say (''      Taking Screenshot of Element '' @ quoted element_name @ '' Interfaces Summary: '') [] None,
        act (SetWindowSize 1920 2160),
        screenshot_page py_int (UI_ELEMENT_INTERFACES region element_id) drv
          (element_directory @ ''interfaces_summary.png'') (PyStr ''class'') ''interface_name-wrapper'' None None 15 1,
        act (SetWindowSize 1920 1080),
        say ''Done'' nl (Some ''green''),
        say (''      Taking Screenshot of Element '' @ quoted element_name @ '' BGP Prefix Lists: '') [] None,
        screenshot_page py_int (UI_ELEMENT_BGPPREFIXLISTS region element_id) drv
          (element_directory @ ''bgp_prefix_lists.png'') (PyStr ''class'') ''prefixListsTable'' None None 15 1,
        say ''Done'' nl (Some ''green''),
        say (''      Taking Screenshot of Element '' @ quoted element_name @ '' SNMP: '') [] None,
        screenshot_page py_int (UI_ELEMENT_SNMP region element_id) drv
          (element_directory @ ''snmp.png'') (PyStr ''class'') ''snmpAgentView'' None None 15 1,
        say ''Done'' nl (Some ''green''),
        say (''      Taking Screenshot of Element '' @ quoted element_name @ '' BGP AS-PATH Access Lists: '') [] None,
        screenshot_page py_int (UI_ELEMENT_BGPASPATHACL region element_id) drv
          (element_directory @ ''bgp_aspath_acl.png'') (PyStr ''class'') ''asPathListsTable'' None None 15 1,
        say ''Done'' nl (Some ''green''),
        say (''      Taking Screenshot of Element '' @ quoted element_name @ '' SYSLOG:  '') [] None,
        screenshot_page py_int (UI_ELEMENT_SYSLOG region element_id) drv
          (element_directory @ ''syslog.png'') (PyStr ''class'') ''syslog-export-table'' None None 15 1,
        say ''Done'' nl (Some ''green''),
        say (''      Taking Screenshot of Element '' @ quoted element_name @ '' BGP IP Community Lists: '') [] None,
        screenshot_page py_int (UI_ELEMENT_BGPIPCOMMUNITYLISTS region element_id) drv
          (element_directory @ ''bgp_ip_community_lists.png'') (PyStr ''class'') ''ipCommunityListsTable'' None None 15 1,
        say ''Done'' nl (Some ''green''),
        say (''      Taking Screenshot of Element '' @ quoted element_name @ '' NTP: '') [] None,
        screenshot_page py_int (UI_ELEMENT_NTP region element_id) drv
          (element_directory @ ''ntp.png'') (PyStr ''class'') ''ntp-servers-table'' None None 15 1,
        say ''Done'' nl (Some ''green'')]"


text \<open>The loop over the sorted interfaces of an element.\<close>

fun interface_loop ::
  "int_cast \<Rightarrow> browser \<Rightarrow> string \<Rightarrow> string \<Rightarrow> string \<Rightarrow> interface_record list
     \<Rightarrow> md_interface list \<times> trace \<Rightarrow> pyerr option \<times> md_interface list \<times> trace" where
  "interface_loop py_int drv region element_id interface_directory [] (interfaces, tr) =
     (None, interfaces, tr)"
| "interface_loop py_int drv region element_id interface_directory (interface_record # rest)
       (interfaces, tr) =
     (let interface_id = iface_id interface_record;
          interface_name = iface_name interface_record;
          interface_fs_name = sanitize_filename interface_name;
          markdown_interface_info = \<lparr>if_name = interface_name, if_fs_name = interface_fs_name\<rparr>
      in case run_steps
               [say (''        Taking Screenshot of Interface '' @ quoted interface_name
                     @ '' Configuration: '') [] None,
                screenshot_page py_int (UI_INTERFACES_DETAIL region element_id interface_id) drv
                  (interface_directory @ interface_fs_name @ ''.png'') (PyStr ''class'')
                  ''collapsible-form__toggle'' (Some XPATH_1_INTERFACE_EXPANDS)
                  (Some XPATH_2_INTERFACE_EXPANDS) 15 1,
                say ''Done'' nl (Some ''green'')] tr of
           (Some e, tr1) \<Rightarrow> (Some e, interfaces, tr1)
         | (None, tr1) \<Rightarrow>
             interface_loop py_int drv region element_id interface_directory rest
               (interfaces @ [markdown_interface_info], tr1))"

text \<open>
  The interfaces block of an element: only when the SDK lists at least one interface are
  they sorted by name, the \<^verbatim>\<open>interfaces/\<close> directory made and each interface captured.
\<close>

definition capture_interfaces ::
  "world \<Rightarrow> string \<Rightarrow> string \<Rightarrow> string \<Rightarrow> trace
     \<Rightarrow> pyerr option \<times> md_interface list \<times> trace" where
  "capture_interfaces w site_id element_id element_directory tr =
     (let interfaces_unsorted = get_interfaces w site_id element_id
      in if length interfaces_unsorted \<ge> 1 then
           (let interfaces_cache = sort_key iface_name interfaces_unsorted;
                interface_directory = element_directory @ ''interfaces'' @ ''/'';
                tr1 = tr @ [Mkdir interface_directory, SetWindowSize 1920 2160]
            in case interface_loop (builtin_int w) (driver w) (controller_region w) element_id
                      interface_directory interfaces_cache ([], tr1) of
                 (Some e, interfaces, tr2) \<Rightarrow> (Some e, interfaces, tr2)
               | (None, interfaces, tr2) \<Rightarrow>
                   (None, interfaces, tr2 @ [SetWindowSize 1920 1080]))
         else (None, [], tr))"

text \<open>One round of the element loop.\<close>

definition capture_element ::
  "world \<Rightarrow> string \<Rightarrow> string \<Rightarrow> string \<Rightarrow> md_element list \<times> trace
     \<Rightarrow> pyerr option \<times> md_element list \<times> trace" where
  "capture_element w site_id site_directory element_name s =
     (case s of
        (elements, tr) \<Rightarrow>
          (case elements_n2id w element_name of
             None \<Rightarrow>
               (None, elements,
                ci_print (''WARNING: Could not get Element ID for Element '' @ element_name
                          @ '', skipping..'') nl (Some ''yellow'') tr)
           | Some element_id \<Rightarrow>
               (let element_fs_name = sanitize_filename element_name;
                    element_directory = site_directory @ element_fs_name @ ''/'';
                    tr1 = tr @ [Mkdir element_directory]
                in case element_pages (builtin_int w) (driver w) (controller_region w) element_name
                          element_id element_directory tr1 of
                     (Some e, tr2) \<Rightarrow> (Some e, elements, tr2)
                   | (None, tr2) \<Rightarrow>
                       (case capture_interfaces w site_id element_id element_directory tr2 of
                          (Some e, interfaces, tr3) \<Rightarrow> (Some e, elements, tr3)
                        | (None, interfaces, tr3) \<Rightarrow>
                            (None,
                             elements @ [\<lparr>el_name = element_name, el_fs_name = element_fs_name,
                                          el_interfaces = interfaces\<rparr>],
                             tr3)))))"

fun element_loop ::
  "world \<Rightarrow> string \<Rightarrow> string \<Rightarrow> string list \<Rightarrow> md_element list \<times> trace
     \<Rightarrow> pyerr option \<times> md_element list \<times> trace" where
  "element_loop w site_id site_directory [] s = (None, s)"
| "element_loop w site_id site_directory (element_name # rest) s =
     (case capture_element w site_id site_directory element_name s of
        (Some e, s1) \<Rightarrow> (Some e, s1)
      | (None, s1) \<Rightarrow> element_loop w site_id site_directory rest s1)"

text \<open>
  One round of the site loop: a site whose name has no ID is reported and skipped
  (\<^verbatim>\<open>continue\<close>); otherwise its directory is made, its page captured, its elements
  processed and its record appended to the markdown index.
\<close>

definition capture_site ::
  "world \<Rightarrow> string \<times> string list \<Rightarrow> md_site list \<times> trace
     \<Rightarrow> pyerr option \<times> md_site list \<times> trace" where
  "capture_site w item s =
     (case (item, s) of
        ((site_name, elements_list), (markdown_index, tr)) \<Rightarrow>
          (case sites_n2id w site_name of
             None \<Rightarrow>
               (None, markdown_index,
                ci_print (''WARNING: Could not get Site ID for Site '' @ site_name
                          @ '', skipping..'') nl (Some ''yellow'') tr)
           | Some site_id \<Rightarrow>
               (let site_fs_name = sanitize_filename site_name;
                    site_directory = ''screenshots/'' @ site_fs_name @ ''/'';
                    tr1 = tr @ [Mkdir site_directory]
                in case run_steps
                         [say (''    Taking Screenshot of Site '' @ quoted site_name
                               @ '' Site Map Card: '') [] None,
                          screenshot_page (builtin_int w) (UI_SITE_PAGE (controller_region w) site_id) (driver w)
                            (site_directory @ ''site-info.png'') (PyStr ''class'')
                            ''site-info'' None None 15 1,
                          say ''Done'' nl (Some ''green'')] tr1 of
                     (Some e, tr2) \<Rightarrow> (Some e, markdown_index, tr2)
                   | (None, tr2) \<Rightarrow>
                       (case element_loop w site_id site_directory elements_list ([], tr2) of
                          (Some e, elements, tr3) \<Rightarrow> (Some e, markdown_index, tr3)
                        | (None, elements, tr3) \<Rightarrow>
                            (None,
                             markdown_index @ [\<lparr>st_name = site_name, st_fs_name = site_fs_name,
                                                st_elements = elements\<rparr>],
                             tr3)))))"

fun site_loop ::
  "world \<Rightarrow> (string \<times> string list) list \<Rightarrow> md_site list \<times> trace
     \<Rightarrow> pyerr option \<times> md_site list \<times> trace" where
  "site_loop w [] s = (None, s)"
| "site_loop w (item # rest) s =
     (case capture_site w item s of
        (Some e, s1) \<Rightarrow> (Some e, s1)
      | (None, s1) \<Rightarrow> site_loop w rest s1)"

subsection \<open>The documentation emitter\<close>

text \<open>
  The files the script opens for writing. A path is read as its components (empty ones
  and \<^verbatim>\<open>.\<close> dropped; \<^verbatim>\<open>..\<close> is kept as a name). A directory exists if it is the
  working directory, existed at the start, or was made by a \<open>Mkdir\<close> event, which makes the
  missing parents too (\<^verbatim>\<open>mkdir(parents=True, exist_ok=True)\<close>). \<^verbatim>\<open>open(path, 'w')\<close>
  raises when the path is a directory or its parent directory does not exist.
\<close>

fun split_slash :: "string \<Rightarrow> string list" where
  "split_slash [] = [[]]"
| "split_slash (c # cs) =
     (if c = CHR ''/'' then [] # split_slash cs
      else (case split_slash cs of p # ps \<Rightarrow> (c # p) # ps | [] \<Rightarrow> [[c]]))"

definition path_parts :: "string \<Rightarrow> string list" where
  "path_parts p = filter (\<lambda>part. part \<noteq> [] \<and> part \<noteq> ''.'') (split_slash p)"

fun made_by :: "string list \<Rightarrow> event \<Rightarrow> bool" where
  "made_by d (Mkdir p) = prefix d (path_parts p)"
| "made_by d _ = False"

definition dir_exists :: "string list set \<Rightarrow> trace \<Rightarrow> string list \<Rightarrow> bool" where
  "dir_exists dirs0 tr d = (d = [] \<or> d \<in> dirs0 \<or> list_ex (made_by d) tr)"

definition open_write :: "string list set \<Rightarrow> string \<Rightarrow> string \<Rightarrow> step" where
  "open_write dirs0 filename content tr =
     (if dir_exists dirs0 tr (path_parts filename) then (Some (IsADirectoryError filename), tr)
      else if dir_exists dirs0 tr (butlast (path_parts filename))
      then (None, tr @ [WriteFile filename content])
      else (Some (FileNotFoundError filename), tr))"

text \<open>\<^verbatim>\<open>str(x)\<close> of an optional string inside an f-string.\<close>

fun opt_str :: "string option \<Rightarrow> string" where
  "opt_str None = ''None''"
| "opt_str (Some s) = s"

definition unlines :: "string list \<Rightarrow> string" where
  "unlines ls = concat (map (\<lambda>l. l @ nl) ls)"

text \<open>
  The two optional fragments that follow the heading of every README: the commit line
  when \<open>CI_COMMIT\<close> is truthy, the job line when \<open>CI_SYSTEM\<close> is truthy. The script spells
  them out three times with the same text. What follows them in each template is fixed
  text, held below as the body of the template.
\<close>

definition ci_lines :: "ci_info \<Rightarrow> string" where
  "ci_lines ci =
     (if truthy (CI_COMMIT ci) then nl @ nl @ ''commit: '' @ opt_str (CI_COMMIT ci) else [])
     @ (if truthy (CI_SYSTEM ci)
        then nl @ nl @ opt_str (CI_SYSTEM ci) @ '' job id: ['' @ opt_str (CI_BUILD_ID ci)
             @ '']('' @ opt_str (CI_BUILD_URL ci) @ '')''
        else [])"

definition site_readme_body :: string where
  \<open>site_readme_body =
     unlines
         ['''',
          ''[Back To Topology](../README.md)'',
          ''<img alt="Site Card" src="site-info.png?raw=1" width="1110">'',
          '''',
          ''### Elements'',
          ''<ul>'']\<close>

definition site_readme_head :: "ci_info \<Rightarrow> md_site \<Rightarrow> string" where
  "site_readme_head ci site =
     ''## Site: '' @ st_name site @ ci_lines ci @ nl
     @ site_readme_body"

definition element_li :: "md_element \<Rightarrow> string" where
  \<open>element_li element =
     unlines
       [''<li>'',
        ''<A href="'' @ el_fs_name element @ ''/README.md">'' @ el_name element @ ''</A>'',
        ''</li>'']\<close>

definition element_readme_body :: string where
  \<open>element_readme_body =
     unlines
         ['''',
          ''[Back To Site](../README.md)'',
          '''',
          ''### Interfaces'',
          ''<ul>'',
          ''<li>'',
          ''<A href="interfaces/README.md">Interfaces Detail</A>'',
          ''</li>'',
          ''</ul>'',
          ''<img alt="Interfaces Summary" src="interfaces_summary.png?raw=1" width="1110">'',
          '''',
          ''### Basic Info'',
          ''<img alt="Basic Info" src="basic_info.png?raw=1" width="1110">'',
          '''',
          ''### Device Toolkit'',
          ''<img alt="Device Toolkit" src="device_toolkit.png?raw=1" width="1110">'',
          '''',
          ''### Routing/BGP Peers'',
          ''<img alt="BGP Peers" src="bgp_peers.png?raw=1" width="1110">'',
          '''',
          ''### Routing/BGP Route Maps'',
          ''<img alt="BGP Route Maps" src="bgp_route_maps.png?raw=1" width="1110">'',
          '''',
          ''### Routing/BGP AS-Path Access Lists'',
          ''<img alt="BGP Peers" src="bgp_aspath_acl.png?raw=1" width="1110">'',
          '''',
          ''### Routing/BGP Prefix Lists'',
          ''<img alt="BGP Peers" src="bgp_prefix_lists.png?raw=1" width="1110">'',
          '''',
          ''### Routing/BGP Peers'',
          ''<img alt="BGP Peers" src="bgp_ip_community_lists.png?raw=1" width="1110">'',
          '''',
          ''### Routing/Static'',
          ''<img alt="Static Routes" src="static_routes.png?raw=1" width="1110">'',
          '''',
          ''### SNMP'',
          ''<img alt="SNMP" src="snmp.png?raw=1" width="1110">'',
          '''',
          ''### SYSLOG'',
          ''<img alt="SYSLOG" src="syslog.png?raw=1" width="1110">'',
          '''',
          ''### NTP'',
          ''<img alt="NTP" src="ntp.png?raw=1" width="1110">'',
          '''']\<close>

definition element_readme :: "ci_info \<Rightarrow> md_element \<Rightarrow> string" where
  "element_readme ci element =
     ''## Element: '' @ el_name element @ ci_lines ci @ nl
     @ element_readme_body"

definition interface_readme_body :: string where
  \<open>interface_readme_body =
     unlines
         ['''',
          ''[Back To Element](../README.md)'',
          '''']\<close>

definition interface_readme_head :: "ci_info \<Rightarrow> md_element \<Rightarrow> string" where
  "interface_readme_head ci element =
     ''## Element: '' @ el_name element @ '' Interfaces'' @ ci_lines ci @ nl
     @ interface_readme_body"

definition interface_entry :: "md_interface \<Rightarrow> string" where
  \<open>interface_entry interface =
     unlines
       [''### '' @ if_name interface,
        ''<img alt="1" src="'' @ if_fs_name interface @ ''.png?raw=1" width="1110">'',
        ''                '']\<close>

text \<open>
  One round of the loop over the elements of a site: the interface README is written
  first, for every element, then the element README; the site README grows by one entry.
\<close>

definition emit_element ::
  "world \<Rightarrow> ci_info \<Rightarrow> md_site \<Rightarrow> md_element \<Rightarrow> string \<times> trace
     \<Rightarrow> pyerr option \<times> string \<times> trace" where
  "emit_element w ci site element s =
     (case s of
        (site_readme_md, tr) \<Rightarrow>
          (let element_readme_filename =
                 ''screenshots/'' @ st_fs_name site @ ''/'' @ el_fs_name element @ ''/README.md'';
               element_readme_md = element_readme ci element;
               interface_readme_filename =
                 ''screenshots/'' @ st_fs_name site @ ''/'' @ el_fs_name element
                 @ ''/interfaces/README.md'';
               interface_readme_md =
                 foldl (\<lambda>md interface. md @ interface_entry interface)
                   (interface_readme_head ci element) (el_interfaces element)
           in case run_steps
                    [say (''      Writing '' @ interface_readme_filename @ '': '') [] None,
                     open_write (existing_dirs w) interface_readme_filename interface_readme_md,
                     say ''Done'' nl (Some ''green''),
                     say (''      Writing '' @ element_readme_filename @ '': '') [] None,
                     open_write (existing_dirs w) element_readme_filename element_readme_md,
                     say ''Done'' nl (Some ''green'')] tr of
                (Some e, tr1) \<Rightarrow> (Some e, site_readme_md, tr1)
              | (None, tr1) \<Rightarrow> (None, site_readme_md @ element_li element, tr1)))"

fun emit_elements ::
  "world \<Rightarrow> ci_info \<Rightarrow> md_site \<Rightarrow> md_element list \<Rightarrow> string \<times> trace
     \<Rightarrow> pyerr option \<times> string \<times> trace" where
  "emit_elements w ci site [] s = (None, s)"
| "emit_elements w ci site (element # rest) s =
     (case emit_element w ci site element s of
        (Some e, s1) \<Rightarrow> (Some e, s1)
      | (None, s1) \<Rightarrow> emit_elements w ci site rest s1)"

definition emit_site :: "world \<Rightarrow> ci_info \<Rightarrow> md_site \<Rightarrow> step" where
  "emit_site w ci site tr =
     (let site_readme_filename = ''screenshots/'' @ st_fs_name site @ ''/README.md''
      in case emit_elements w ci site (st_elements site) (site_readme_head ci site, tr) of
           (Some e, site_readme_md, tr1) \<Rightarrow> (Some e, tr1)
         | (None, site_readme_md, tr1) \<Rightarrow>
             run_steps
               [say (''      Writing '' @ site_readme_filename @ '': '') [] None,
                open_write (existing_dirs w) site_readme_filename
                  (site_readme_md @ unlines [''</ul>'']),
                say ''Done'' nl (Some ''green'')] tr1)"

definition emit_sites :: "world \<Rightarrow> ci_info \<Rightarrow> md_site list \<Rightarrow> step" where
  "emit_sites w ci markdown_index = run_steps (map (emit_site w ci) markdown_index)"

subsection \<open>The script\<close>

datatype outcome = Completed | SysExit nat | Uncaught pyerr

text \<open>
  The script from the loaded configuration on. An exception that nothing catches ends
  the run (\<open>Uncaught\<close>).
\<close>

definition run_script :: "world \<Rightarrow> ci_info \<Rightarrow> string \<Rightarrow> yaml \<Rightarrow> outcome \<times> trace" where
  "run_script w ci config_file loaded_config =
     (let tr0 = ci_print (''    Loaded Config File '' @ config_file @ ''.'') nl None []
      in case build_sites_dict (config_lower_version_get w) loaded_config of
           Inl e \<Rightarrow> (Uncaught e, tr0)
         | Inr sites_dict \<Rightarrow>
             (case run_steps
                     [act ChromeStart,
                      act (ImplicitlyWait DEFAULT_IMPLICIT_WAIT),
                      say ''    Logging in and taking topology screenshot: '' [] None,
                      screenshot_page (builtin_int w) (UI_TOPOLOGY_PAGE (controller_region w)) (driver w)
                        ''screenshots/map.png'' (PyStr ''class'') ''leaflet-map-pane''
                        (Some XPATH_CLOSE_WHATS_NEW) None 15 8,
                      say ''Done'' nl (Some ''green'')] tr0 of
                (Some e, tr1) \<Rightarrow> (Uncaught e, tr1)
              | (None, tr1) \<Rightarrow>
                  (case site_loop w sites_dict ([], tr1) of
                     (Some e, markdown_index, tr2) \<Rightarrow> (Uncaught e, tr2)
                   | (None, markdown_index, tr2) \<Rightarrow>
                       (case emit_sites w ci markdown_index
                               (ci_print ''    Creating changed item Markdown Indexes..'' nl
                                  (Some ''white'') (tr2 @ [DriverClose])) of
                          (Some e, tr3) \<Rightarrow> (Uncaught e, tr3)
                        | (None, tr3) \<Rightarrow> (Completed, tr3 @ [StdoutCompleted config_file])))))"

text \<open>
  The whole script: the token check, the CI detection, the argument check and the loading
  of the configuration file, each of the three failures ending in \<^verbatim>\<open>sys.exit(1)\<close>.
\<close>

definition main :: "world \<Rightarrow> outcome \<times> trace" where
  "main w =
     (case environ w ''AUTH_TOKEN'' of
        None \<Rightarrow>
          (SysExit 1,
           ci_print ''ERROR: No AUTH_TOKEN available for screenshots. Exiting.'' nl
             (Some ''red'') [])
      | Some CLOUDGENIX_AUTH_TOKEN \<Rightarrow>
          (let ci = ci_detect (environ w)
           in if length (argv w) \<noteq> 2 then
                (SysExit 1,
                 foldl (\<lambda>tr arg. ci_print arg nl (Some ''red'') tr)
                   (ci_print (''ERROR: This script takes exactly 1 command line argument. ''
                              @ ''Got the following: '') nl (Some ''red'') [])
                   (argv w))
              else
                (let config_file = argv w ! 1
                 in case load_config w config_file of
                      Inl e \<Rightarrow>
                        if is_IOError e then
                          (SysExit 1,
                           ci_print (''ERROR: Could not open file '' @ config_file @ '': ''
                                     @ err_msg e) nl (Some ''red'') [])
                        else (Uncaught e, [])
                    | Inr loaded_config \<Rightarrow> run_script w ci config_file loaded_config)))"

text \<open>Events that put a screenshot or a Markdown file on disk.\<close>

fun is_output_event :: "event \<Rightarrow> bool" where
  "is_output_event (GetScreenshotAsFile _) = True"
| "is_output_event (WriteFile _ _) = True"
| "is_output_event _ = False"

fun is_stdout :: "event \<Rightarrow> bool" where
  "is_stdout (Stdout _) = True"
| "is_stdout _ = False"

fun is_markdown_write :: "event \<Rightarrow> bool" where
  "is_markdown_write (WriteFile _ _) = True"
| "is_markdown_write _ = False"

text \<open>A line of output that starts, in red, with \<^verbatim>\<open>ERROR: \<close>.\<close>

definition is_red_error :: "event \<Rightarrow> bool" where
  "is_red_error ev =
     (case ev of
        Stdout text \<Rightarrow> prefix (CHR 0x1B # ''[0;31m'' @ ''ERROR: '') text
      | _ \<Rightarrow> False)"

subsection \<open>Example inputs\<close>

text \<open>
  A stand-in for the external lookup, reading the key as it is, and a configuration of two
  sites, the second without elements.
\<close>

definition example_version_get :: version_get where
  "example_version_get root key =
     (case root of
        YDict kvs \<Rightarrow> (case map_of kvs key of Some v \<Rightarrow> Inr v | None \<Rightarrow> Inr YNull)
      | _ \<Rightarrow> Inl (AttributeError ''object has no attribute 'get' ''))"

definition example_sites :: "(string \<times> yaml) list" where
  "example_sites =
     [(''Site A'', YDict [(''elements'', YDict [(''ion-1'', YNull), (''ion-2'', YNull)])]),
      (''Site B'', YDict [(''elements'', YDict [])])]"

definition example_config :: yaml where
  "example_config = YDict [(''type'', YScalar ''cloudgenix template''), (''sites'', YDict example_sites)]"

text \<open>
  A configuration of two sites, the second holding no \<^verbatim>\<open>elements\<close> key: the lookup answers
  \<^verbatim>\<open>None\<close> for it.
\<close>

definition example_bare_sites :: "(string \<times> yaml) list" where
  "example_bare_sites =
     [(''Site A'', YDict [(''elements'', YDict [(''ion-1'', YNull)])]),
      (''Site C'', YDict [])]"

definition example_bare_config :: yaml where
  "example_bare_config =
     YDict [(''type'', YScalar ''cloudgenix template''), (''sites'', YDict example_bare_sites)]"


definition quick_browser :: browser where
  "quick_browser = \<lparr>wait_found = (\<lambda>tr. True), xpath_count = (\<lambda>tr. 0)\<rparr>"

text \<open>
  An \<open>int_cast\<close> for the example inputs: it reads an optional minus sign followed by ASCII
  digits, as \<^verbatim>\<open>int\<close> does, and rejects every other string. No theorem depends on it but the
  evaluations at example inputs.
\<close>

definition is_digit :: "char \<Rightarrow> bool" where
  "is_digit c = (48 \<le> (of_char c :: nat) \<and> (of_char c :: nat) \<le> 57)"

definition digit_val :: "char \<Rightarrow> nat" where
  "digit_val c = (of_char c :: nat) - 48"

fun digits_value :: "nat \<Rightarrow> string \<Rightarrow> nat option" where
  "digits_value acc [] = Some acc"
| "digits_value acc (c # cs) =
     (if is_digit c then digits_value (10 * acc + digit_val c) cs else None)"

definition example_int :: int_cast where
  "example_int val =
     (case val of
        [] \<Rightarrow> None
      | c # cs \<Rightarrow>
          if c = CHR ''-'' then
            (if cs = [] then None else map_option (\<lambda>n. - int n) (digits_value 0 cs))
          else map_option int (digits_value 0 (c # cs)))"

text \<open>
  A run with a token, one argument and a readable configuration of two sites: \<open>Ghost\<close>,
  which the portal does not know, and \<open>S1\<close> with the element \<open>E1\<close>, for which the SDK
  lists no interface. No CI variable is set and no directory exists yet.
\<close>

definition example_world :: world where
  "example_world =
     \<lparr>environ = [''AUTH_TOKEN'' \<mapsto> ''secret''],
      argv = [''screenshot.py'', ''site.yml''],
      load_config =
        (\<lambda>f. if f = ''site.yml''
             then Inr (YDict [(''sites'',
                    YDict [(''Ghost'', YDict [(''elements'', YDict [(''E0'', YNull)])]),
                           (''S1'', YDict [(''elements'', YDict [(''E1'', YNull)])])])])
             else Inl (FileNotFoundError f)),
      builtin_int = example_int,
      config_lower_version_get = example_version_get,
      controller_region = ''us'',
      sites_n2id = [''S1'' \<mapsto> ''101''],
      elements_n2id = [''E1'' \<mapsto> ''201''],
      get_interfaces = (\<lambda>site_id element_id. []),
      driver = quick_browser,
      existing_dirs = {}\<rparr>"

text \<open>The same run when the tree of an earlier run, with interfaces then, is still there.\<close>

definition example_rerun_world :: world where
  "example_rerun_world =
     example_world\<lparr>existing_dirs :=
       {[''screenshots''], [''screenshots'', ''S1''], [''screenshots'', ''S1'', ''E1''],
        [''screenshots'', ''S1'', ''E1'', ''interfaces'']}\<rparr>"

definition example_site :: md_site where
  "example_site = \<lparr>st_name = ''S1'', st_fs_name = ''S1'', st_elements = []\<rparr>"

definition example_element :: md_element where
  "example_element = \<lparr>el_name = ''E1'', el_fs_name = ''E1'', el_interfaces = []\<rparr>"

section \<open>Properties\<close>

subsection \<open>Filename sanitizer\<close>

lemma valid_chars_all: "\<forall>c. (c \<in> set FILENAME_VALID_CHARS) = spec_allowed c"
  by code_simp

lemma valid_chars_iff: "(c \<in> set FILENAME_VALID_CHARS) = spec_allowed c"
  using valid_chars_all by blast

lemma sanitize_filename_filter: "sanitize_filename s = filter spec_allowed s"
  by (simp add: sanitize_filename_def valid_chars_iff)

text \<open>
  C3: for every string \<open>s\<close>, \<open>sanitize_filename s\<close> is the subsequence of \<open>s\<close> made of
  exactly the characters of the allow-list (the marks \<^verbatim>\<open>-_.() \<close>, ASCII letters and
  digits): the characters kept are the allowed ones, in their order, and every other
  character is dropped.
\<close>

theorem C3_sanitize_filename_keeps_allowed:
  "sanitize_filename s = filter spec_allowed s
   \<and> subseq (sanitize_filename s) s
   \<and> set (sanitize_filename s) = {c \<in> set s. spec_allowed c}"
  by (simp add: sanitize_filename_filter)

theorem C3_sanitize_filename_witness:
  "sanitize_filename ''Site #1: a/b (x).png'' = ''Site 1 ab (x).png''"
proof -
  have "filter spec_allowed ''Site #1: a/b (x).png'' = ''Site 1 ab (x).png''"
    by code_simp
  with C3_sanitize_filename_keeps_allowed [of "''Site #1: a/b (x).png''"]
  show ?thesis by simp
qed

text \<open>
  C4: sanitising is idempotent, \<open>sanitize_filename (sanitize_filename s) = sanitize_filename s\<close>
  for every string \<open>s\<close>.
\<close>

theorem C4_sanitize_filename_idempotent:
  "sanitize_filename (sanitize_filename s) = sanitize_filename s"
  by (simp add: sanitize_filename_def)

theorem C4_sanitize_filename_idempotent_witness:
  "sanitize_filename (sanitize_filename ''a*b?c'') = ''abc''"
proof -
  have "sanitize_filename ''a*b?c'' = ''abc''"
    by code_simp
  with C4_sanitize_filename_idempotent [of "''a*b?c''"]
  show ?thesis by simp
qed

subsection \<open>The sites-to-elements map\<close>

lemma foldl_append_names:
  "foldl (\<lambda>elements_list (element, config_element_cnf). elements_list @ [element]) acc kvs
     = acc @ map fst kvs"
  by (induction kvs arbitrary: acc) (auto simp: case_prod_unfold)

lemma elements_of_declared:
  "has_elements clvg cnf \<Longrightarrow> elements_of clvg cnf = Inr (declared_elements clvg cnf)"
  by (auto simp: has_elements_def elements_of_def declared_elements_def foldl_append_names
      split: sum.splits yaml.splits)

lemma dict_setitem_fresh:
  "k \<notin> fst ` set d \<Longrightarrow> dict_setitem d k v = d @ [(k, v)]"
  by (induction d) auto

lemma sites_loop_distinct:
  "distinct (map fst acc @ map fst kvs) \<Longrightarrow>
   list_all (\<lambda>(site, cnf). has_elements clvg cnf) kvs \<Longrightarrow>
   sites_loop clvg kvs acc =
     Inr (acc @ map (\<lambda>(site, cnf). (site, declared_elements clvg cnf)) kvs)"
proof (induction kvs arbitrary: acc)
  case Nil
  then show ?case by simp
next
  case (Cons kv kvs)
  obtain site cnf where kv: "kv = (site, cnf)" by (cases kv)
  from Cons.prems have fresh: "site \<notin> fst ` set acc" by (auto simp: kv)
  from Cons.prems have he: "has_elements clvg cnf" by (simp add: kv)
  have d: "distinct (map fst (acc @ [(site, declared_elements clvg cnf)]) @ map fst kvs)"
    using Cons.prems(1) by (auto simp: kv)
  have r: "list_all (\<lambda>(site, cnf). has_elements clvg cnf) kvs"
    using Cons.prems(2) by simp
  show ?case
    using Cons.IH [OF d r]
    by (simp add: kv elements_of_declared [OF he] dict_setitem_fresh [OF fresh])
qed

lemma map_of_declared:
  "distinct (map fst kvs) \<Longrightarrow> (site, cnf) \<in> set kvs \<Longrightarrow>
   map_of (map (\<lambda>(site, cnf). (site, f cnf)) kvs) site = Some (f cnf)"
  by (induction kvs) (auto simp: image_iff)

text \<open>
  The loop over the sites calls \<^verbatim>\<open>config_elements.items()\<close> with no guard. For a
  configuration of two sites of which one holds no mapping of elements, the lookup gives
  \<^verbatim>\<open>None\<close> for that site, \<^verbatim>\<open>None.items()\<close> raises \<^verbatim>\<open>AttributeError\<close>, and no \<open>sites_dict\<close>
  comes out at all, let alone one of two entries.
\<close>

theorem C5_sites_dict_bare_site_counterexample:
  "example_version_get example_bare_config ''sites'' = Inr (YDict example_bare_sites)
   \<and> distinct (map fst example_bare_sites)
   \<and> length example_bare_sites = 2
   \<and> example_version_get (YDict []) ''elements'' = Inr YNull
   \<and> build_sites_dict example_version_get example_bare_config =
         Inl (AttributeError ''object has no attribute 'items' '')
   \<and> \<not> (\<exists>sites_dict.
            build_sites_dict example_version_get example_bare_config = Inr sites_dict
            \<and> length sites_dict = length example_bare_sites)"
proof -
  have b: "build_sites_dict example_version_get example_bare_config =
             Inl (AttributeError ''object has no attribute 'items' '')"
    by (simp add: build_sites_dict_def example_bare_config_def example_bare_sites_def
        example_version_get_def elements_of_def)
  show ?thesis
    unfolding b
    by (simp add: example_bare_config_def example_bare_sites_def example_version_get_def)
qed

text \<open>
  C5: when the configuration holds a mapping of \<open>N\<close> sites (a \<^verbatim>\<open>dict\<close>, so with distinct
  names) and every site holds a mapping of elements (possibly empty), \<open>sites_dict\<close> is
  built without error, has exactly \<open>N\<close> entries in the file order of the sites, and the
  entry of each site is the list of exactly its element names in their file order.
\<close>

theorem C5_sites_dict_entries:
  assumes "clvg loaded_config ''sites'' = Inr (YDict config_sites)"
    and "distinct (map fst config_sites)"
    and "list_all (\<lambda>(site, cnf). has_elements clvg cnf) config_sites"
  shows "\<exists>sites_dict.
           build_sites_dict clvg loaded_config = Inr sites_dict
           \<and> length sites_dict = length config_sites
           \<and> map fst sites_dict = map fst config_sites
           \<and> sites_dict = map (\<lambda>(site, cnf). (site, declared_elements clvg cnf)) config_sites
           \<and> (\<forall>site cnf els.
                 (site, cnf) \<in> set config_sites \<and> clvg cnf ''elements'' = Inr (YDict els) \<longrightarrow>
                 map_of sites_dict site = Some (map fst els))"
proof -
  let ?d = "map (\<lambda>(site, cnf). (site, declared_elements clvg cnf)) config_sites"
  have "sites_loop clvg config_sites [] = Inr ([] @ ?d)"
    using assms(2,3) by (intro sites_loop_distinct) simp_all
  then have "build_sites_dict clvg loaded_config = Inr ?d"
    by (simp add: build_sites_dict_def assms(1))
  moreover have "map fst ?d = map fst config_sites"
    by (simp add: case_prod_unfold comp_def)
  moreover have "\<forall>site cnf els.
                   (site, cnf) \<in> set config_sites \<and> clvg cnf ''elements'' = Inr (YDict els) \<longrightarrow>
                   map_of ?d site = Some (map fst els)"
  proof (intro allI impI)
    fix site cnf els
    assume a: "(site, cnf) \<in> set config_sites \<and> clvg cnf ''elements'' = Inr (YDict els)"
    then have "declared_elements clvg cnf = map fst els"
      by (simp add: declared_elements_def)
    with a map_of_declared [OF assms(2), of site cnf "declared_elements clvg"]
    show "map_of ?d site = Some (map fst els)" by simp
  qed
  ultimately show ?thesis by simp
qed

theorem C5_sites_dict_entries_witness:
  "build_sites_dict example_version_get example_config =
     Inr [(''Site A'', [''ion-1'', ''ion-2'']), (''Site B'', [])]"
proof -
  have 1: "example_version_get example_config ''sites'' = Inr (YDict example_sites)"
    by (simp add: example_version_get_def example_config_def)
  have 2: "distinct (map fst example_sites)"
    by (simp add: example_sites_def)
  have 3: "list_all (\<lambda>(site, cnf). has_elements example_version_get cnf) example_sites"
    by (simp add: example_sites_def has_elements_def example_version_get_def)
  have 4: "map (\<lambda>(site, cnf). (site, declared_elements example_version_get cnf)) example_sites
             = [(''Site A'', [''ion-1'', ''ion-2'']), (''Site B'', [])]"
    by (simp add: example_sites_def declared_elements_def example_version_get_def)
  from C5_sites_dict_entries [OF 1 2 3] 4 show ?thesis
    by auto
qed

subsection \<open>Page capture\<close>

lemma lower_yellow: "lower ''yellow'' = ''yellow''"
  by code_simp

lemma ci_print_yellow:
  "ci_print text e (Some ''yellow'') tr =
     tr @ [Stdout (CHR 0x1B # ''[1;33m'' @ text @ e @ CHR 0x1B # ''[0m'')]"
  unfolding ci_print_def Let_def by (simp add: lower_yellow)

lemma ci_print_None:
  "ci_print text e None tr = tr @ [Stdout (text @ e)]"
  unfolding ci_print_def Let_def by simp

lemma try_click_shape:
  "\<exists>n m es. try_click drv x (a, b, tr) = (n, m, tr @ es) \<and> list_all is_click_event es
      \<and> (\<forall>p. x = Some p \<longrightarrow> FindElementsByXpath p \<in> set es)"
  by (cases x) (auto simp: try_click_def Let_def)

text \<open>
  The part after the \<^verbatim>\<open>try\<close> statement never raises: it sets the implicit wait to zero,
  queries every requested click target, restores the implicit wait, sleeps for the settle
  delay and takes the screenshot.
\<close>

lemma click_and_capture_shape:
  "\<exists>clicks. click_and_capture drv output_filename x1 x2 load_tweak_delay tr =
      (None, tr @ ImplicitlyWait 0 # clicks
               @ [ImplicitlyWait DEFAULT_IMPLICIT_WAIT, Sleep load_tweak_delay,
                  GetScreenshotAsFile output_filename, StdoutElapsed])
     \<and> list_all is_click_event clicks
     \<and> (\<forall>p. x1 = Some p \<longrightarrow> FindElementsByXpath p \<in> set clicks)
     \<and> (\<forall>p. x2 = Some p \<longrightarrow> FindElementsByXpath p \<in> set clicks)"
proof -
  obtain n1 m1 es1 where s1:
    "try_click drv x1 (0, 0, tr @ [ImplicitlyWait 0]) = (n1, m1, (tr @ [ImplicitlyWait 0]) @ es1)"
    "list_all is_click_event es1" "\<forall>p. x1 = Some p \<longrightarrow> FindElementsByXpath p \<in> set es1"
    using try_click_shape [of drv x1 0 0 "tr @ [ImplicitlyWait 0]"] by blast
  obtain n2 m2 es2 where s2:
    "try_click drv x2 (n1, m1, (tr @ [ImplicitlyWait 0]) @ es1) =
       (n2, m2, ((tr @ [ImplicitlyWait 0]) @ es1) @ es2)"
    "list_all is_click_event es2" "\<forall>p. x2 = Some p \<longrightarrow> FindElementsByXpath p \<in> set es2"
    using try_click_shape [of drv x2 n1 m1 "(tr @ [ImplicitlyWait 0]) @ es1"] by blast
  define status where "status =
    (if truthy x1 \<or> truthy x2
     then [Stdout (''Click('' @ str_nat n2 @ '' of '' @ str_nat m2 @ '' succeeded) '')] else [])"
  have st: "list_all is_click_event status"
    by (simp add: status_def)
  have run: "click_and_capture drv output_filename x1 x2 load_tweak_delay tr =
      (None, tr @ ImplicitlyWait 0 # (es1 @ es2 @ status)
               @ [ImplicitlyWait DEFAULT_IMPLICIT_WAIT, Sleep load_tweak_delay,
                  GetScreenshotAsFile output_filename, StdoutElapsed])"
    unfolding click_and_capture_def s1(1) s2(1) status_def
    by (simp add: time_sleep_def ci_print_None)
  have "list_all is_click_event (es1 @ es2 @ status)"
    using s1(2) s2(2) st by simp
  moreover have "\<forall>p. x1 = Some p \<longrightarrow> FindElementsByXpath p \<in> set (es1 @ es2 @ status)"
    using s1(3) by simp
  moreover have "\<forall>p. x2 = Some p \<longrightarrow> FindElementsByXpath p \<in> set (es1 @ es2 @ status)"
    using s2(3) by simp
  ultimately show ?thesis
    using run by blast
qed


lemma time_not_int_run:
  assumes "lower w = ''time''" and "\<not> is_int py_int waitfor_value"
  shows "screenshot_page py_int page_uri sel_driver output_filename (PyStr w) waitfor_value
           click_xpath click_xpath2 load_wait load_tweak_delay tr =
         click_and_capture sel_driver output_filename click_xpath click_xpath2 load_tweak_delay
           (tr @ [DriverGet page_uri])"
  using assms
  by (simp add: screenshot_page_def load_and_wait_def Let_def)

text \<open>
  With \<^verbatim>\<open>waitfor='time'\<close>, a value that casts to a non-negative integer and no click
  targets, the routine sleeps for that many seconds and takes the screenshot.
\<close>

lemma time_nonneg_run:
  assumes "lower w = ''time''" and "py_int waitfor_value = Some secs" and "0 \<le> secs"
  shows "screenshot_page py_int page_uri sel_driver output_filename (PyStr w) waitfor_value
           None None load_wait load_tweak_delay tr =
         (None, tr @ [DriverGet page_uri, Sleep (nat secs), ImplicitlyWait 0,
                      ImplicitlyWait DEFAULT_IMPLICIT_WAIT, Sleep load_tweak_delay,
                      GetScreenshotAsFile output_filename, StdoutElapsed])"
  using assms
  by (simp add: screenshot_page_def load_and_wait_def Let_def is_int_def time_sleep_def
      click_and_capture_def try_click_def)

text \<open>A value that casts to a negative integer makes \<^verbatim>\<open>time.sleep\<close> raise.\<close>

lemma time_negative_run:
  assumes "lower w = ''time''" and "py_int waitfor_value = Some secs" and "secs < 0"
  shows "screenshot_page py_int page_uri sel_driver output_filename (PyStr w) waitfor_value
           click_xpath click_xpath2 load_wait load_tweak_delay tr =
         (Some (ValueError ''sleep length must be non-negative''), tr @ [DriverGet page_uri])"
  using assms
  by (simp add: screenshot_page_def load_and_wait_def Let_def is_int_def time_sleep_def)


lemma lower_time: "lower ''time'' = ''time''" by code_simp


text \<open>
  C10: with \<^verbatim>\<open>waitfor='time'\<close> (in any letter case) and a string \<open>waitfor_value\<close> that
  \<^verbatim>\<open>int\<close> rejects (whatever strings \<^verbatim>\<open>int\<close> reads), nothing happens between loading the page and the click attempts (no
  sleep, no wait for an element), no exception is raised, and the routine goes on to the
  clicks, the settle delay and the screenshot.
\<close>

theorem C10_uncastable_wait_is_skipped:
  assumes "lower w = ''time''" and "\<not> is_int py_int waitfor_value"
  shows "\<exists>clicks.
           screenshot_page py_int page_uri sel_driver output_filename (PyStr w) waitfor_value
             click_xpath click_xpath2 load_wait load_tweak_delay tr =
           (None,
            tr @ [DriverGet page_uri] @ ImplicitlyWait 0 # clicks
               @ [ImplicitlyWait DEFAULT_IMPLICIT_WAIT, Sleep load_tweak_delay,
                  GetScreenshotAsFile output_filename, StdoutElapsed])
           \<and> list_all is_click_event clicks
           \<and> (\<forall>p. click_xpath = Some p \<longrightarrow> FindElementsByXpath p \<in> set clicks)
           \<and> (\<forall>p. click_xpath2 = Some p \<longrightarrow> FindElementsByXpath p \<in> set clicks)"
  unfolding time_not_int_run [OF assms]
  using click_and_capture_shape
    [of sel_driver output_filename click_xpath click_xpath2 load_tweak_delay
        "tr @ [DriverGet page_uri]"]
  by simp

theorem C10_uncastable_wait_is_skipped_witness:
  "screenshot_page example_int ''https://portal.us.cloudgenix.com/#map'' quick_browser ''screenshots/map.png''
     (PyStr ''time'') ''soon'' None None 15 1 [] =
   (None, [DriverGet ''https://portal.us.cloudgenix.com/#map'', ImplicitlyWait 0,
           ImplicitlyWait 25, Sleep 1, GetScreenshotAsFile ''screenshots/map.png'',
           StdoutElapsed])"
proof -
  have 1: "lower ''time'' = ''time''" by (rule lower_time)
  have 2: "\<not> is_int example_int ''soon''" by code_simp
  from C10_uncastable_wait_is_skipped [OF 1 2, of "''https://portal.us.cloudgenix.com/#map''"
      quick_browser "''screenshots/map.png''" None None 15 1 "[]"]
  obtain clicks where c:
    "screenshot_page example_int ''https://portal.us.cloudgenix.com/#map'' quick_browser ''screenshots/map.png''
     (PyStr ''time'') ''soon'' None None 15 1 [] =
     (None, [] @ [DriverGet ''https://portal.us.cloudgenix.com/#map''] @ ImplicitlyWait 0 # clicks
               @ [ImplicitlyWait DEFAULT_IMPLICIT_WAIT, Sleep 1,
                  GetScreenshotAsFile ''screenshots/map.png'', StdoutElapsed])"
    by blast
  have "screenshot_page example_int ''https://portal.us.cloudgenix.com/#map'' quick_browser ''screenshots/map.png''
     (PyStr ''time'') ''soon'' None None 15 1 [] =
     (None, [DriverGet ''https://portal.us.cloudgenix.com/#map'', ImplicitlyWait 0,
           ImplicitlyWait 25, Sleep 1, GetScreenshotAsFile ''screenshots/map.png'',
           StdoutElapsed])"
    by code_simp
  with c show ?thesis by simp
qed

text \<open>
  C8: with \<^verbatim>\<open>waitfor='time'\<close>, a value castable to an integer and no click targets the
  routine is to sleep that long, raise nothing and take the screenshot. With an \<^verbatim>\<open>int\<close>
  that reads \<^verbatim>\<open>"-5"\<close> as \<open>-5\<close>, the value \<^verbatim>\<open>"-5"\<close> is castable (\<open>is_int\<close> holds), yet
  \<^verbatim>\<open>time.sleep(-5)\<close> raises \<^verbatim>\<open>ValueError\<close>, which the \<^verbatim>\<open>except TimeoutException\<close> clause
  does not catch: the routine ends with the exception right after loading the page and
  takes no screenshot. (For a non-negative value the statement holds: \<open>time_nonneg_run\<close>.)
\<close>

theorem C8_negative_wait_raises:
  assumes "py_int ''-5'' = Some (- 5)"
  shows "is_int py_int ''-5''
   \<and> screenshot_page py_int ''https://portal.us.cloudgenix.com/#map'' quick_browser ''screenshots/map.png''
       (PyStr ''time'') ''-5'' None None 15 1 [] =
     (Some (ValueError ''sleep length must be non-negative''),
      [DriverGet ''https://portal.us.cloudgenix.com/#map''])"
proof -
  have "(- 5 :: int) < 0"
    by simp
  with lower_time assms
  have "screenshot_page py_int ''https://portal.us.cloudgenix.com/#map'' quick_browser
          ''screenshots/map.png'' (PyStr ''time'') ''-5'' None None 15 1 [] =
        (Some (ValueError ''sleep length must be non-negative''),
         [] @ [DriverGet ''https://portal.us.cloudgenix.com/#map''])"
    by (rule time_negative_run)
  with assms show ?thesis
    by (simp add: is_int_def)
qed

theorem C8_negative_wait_raises_witness:
  "example_int ''-5'' = Some (- 5)
   \<and> is_int example_int ''-5''
   \<and> screenshot_page example_int ''https://portal.us.cloudgenix.com/#map'' quick_browser ''screenshots/map.png''
       (PyStr ''time'') ''-5'' None None 15 1 [] =
     (Some (ValueError ''sleep length must be non-negative''),
      [DriverGet ''https://portal.us.cloudgenix.com/#map''])"
proof -
  have 1: "example_int ''-5'' = Some (- 5)"
    by code_simp
  from C8_negative_wait_raises [of example_int, OF 1] 1 show ?thesis
    by simp
qed

subsection \<open>The site loop\<close>

lemma site_loop_append:
  "site_loop w (xs @ ys) s =
     (case site_loop w xs s of
        (Some e, s1) \<Rightarrow> (Some e, s1)
      | (None, s1) \<Rightarrow> site_loop w ys s1)"
  by (induction xs arbitrary: s) (auto split: prod.splits option.splits)

lemma capture_site_unknown:
  "sites_n2id w site_name = None \<Longrightarrow>
   capture_site w (site_name, elements_list) (markdown_index, tr) =
     (None, markdown_index,
      tr @ [Stdout (CHR 0x1B # ''[1;33m'' @ ''WARNING: Could not get Site ID for Site ''
                    @ site_name @ '', skipping..'' @ nl @ CHR 0x1B # ''[0m'')])"
  by (simp add: capture_site_def ci_print_yellow)

text \<open>
  C2: a site of \<open>sites_dict\<close> whose name is not in the name-to-ID table is skipped. Its
  round of the loop prints the yellow warning and does nothing else: no directory is made,
  no page is captured and the markdown index is left as it was. Wherever the site stands
  in \<open>sites_dict\<close>, the loop goes on with the sites after it.
\<close>

theorem C2_unknown_site_is_skipped:
  assumes "sites_n2id w site_name = None"
  shows "capture_site w (site_name, elements_list) (markdown_index, tr) =
           (None, markdown_index,
            tr @ [Stdout (CHR 0x1B # ''[1;33m'' @ ''WARNING: Could not get Site ID for Site ''
                          @ site_name @ '', skipping..'' @ nl @ CHR 0x1B # ''[0m'')])
         \<and> site_loop w (earlier @ (site_name, elements_list) # later) s =
             (case site_loop w earlier s of
                (Some e, s1) \<Rightarrow> (Some e, s1)
              | (None, markdown_index1, tr1) \<Rightarrow>
                  site_loop w later
                    (markdown_index1,
                     tr1 @ [Stdout (CHR 0x1B # ''[1;33m''
                                    @ ''WARNING: Could not get Site ID for Site ''
                                    @ site_name @ '', skipping..'' @ nl @ CHR 0x1B # ''[0m'')]))"
  by (simp add: site_loop_append capture_site_unknown [OF assms] split: prod.splits option.splits)

theorem C2_unknown_site_is_skipped_witness:
  "capture_site example_world (''Ghost'', [''E0'']) ([], []) =
     (None, [],
      [Stdout (CHR 0x1B # ''[1;33m'' @ ''WARNING: Could not get Site ID for Site Ghost, skipping..''
               @ nl @ CHR 0x1B # ''[0m'')])"
proof -
  have "sites_n2id example_world ''Ghost'' = None"
    by (simp add: example_world_def)
  from C2_unknown_site_is_skipped [OF this, of "[''E0'']" "[]" "[]" "[]" "[]" "([], [])"]
  show ?thesis by simp
qed

subsection \<open>Fatal failures\<close>

lemma lower_red: "lower ''red'' = ''red''"
  by code_simp

lemma ci_print_red:
  "ci_print text e (Some ''red'') tr =
     tr @ [Stdout (CHR 0x1B # ''[0;31m'' @ text @ e @ CHR 0x1B # ''[0m'')]"
  unfolding ci_print_def Let_def by (simp add: lower_red)

lemma foldl_ci_print_red:
  "foldl (\<lambda>tr arg. ci_print arg e (Some ''red'') tr) tr0 args =
     tr0 @ map (\<lambda>arg. Stdout (CHR 0x1B # ''[0;31m'' @ arg @ e @ CHR 0x1B # ''[0m'')) args"
  by (induction args arbitrary: tr0) (simp_all add: ci_print_red)

lemma main_no_token:
  "environ w ''AUTH_TOKEN'' = None \<Longrightarrow>
   main w = (SysExit 1,
     [Stdout (CHR 0x1B # ''[0;31m'' @ ''ERROR: No AUTH_TOKEN available for screenshots. Exiting.''
              @ nl @ CHR 0x1B # ''[0m'')])"
  by (simp add: main_def ci_print_red)

lemma main_bad_argv:
  "environ w ''AUTH_TOKEN'' = Some token \<Longrightarrow> length (argv w) \<noteq> 2 \<Longrightarrow>
   main w = (SysExit 1,
     Stdout (CHR 0x1B # ''[0;31m''
             @ ''ERROR: This script takes exactly 1 command line argument. Got the following: ''
             @ nl @ CHR 0x1B # ''[0m'')
     # map (\<lambda>arg. Stdout (CHR 0x1B # ''[0;31m'' @ arg @ nl @ CHR 0x1B # ''[0m'')) (argv w))"
  unfolding main_def foldl_ci_print_red by (simp add: ci_print_red)

lemma main_unreadable:
  "environ w ''AUTH_TOKEN'' = Some token \<Longrightarrow> length (argv w) = 2 \<Longrightarrow>
   load_config w (argv w ! 1) = Inl e \<Longrightarrow> is_IOError e \<Longrightarrow>
   main w = (SysExit 1,
     [Stdout (CHR 0x1B # ''[0;31m'' @ ''ERROR: Could not open file '' @ argv w ! 1 @ '': ''
              @ err_msg e @ nl @ CHR 0x1B # ''[0m'')])"
  by (simp add: main_def ci_print_red)

text \<open>
  C6: if the variable \<^verbatim>\<open>AUTH_TOKEN\<close> is not set, or the command line does not have
  exactly one argument, or opening the configuration file raises an \<^verbatim>\<open>IOError\<close>, the
  script ends with exit code 1; what it has done by then is only printing, the first line
  being a red error message, and no screenshot or Markdown file has been written.
\<close>

theorem C6_fatal_failures_exit_1:
  assumes "environ w ''AUTH_TOKEN'' = None
           \<or> length (argv w) \<noteq> 2
           \<or> (\<exists>e. load_config w (argv w ! 1) = Inl e \<and> is_IOError e)"
  shows "fst (main w) = SysExit 1
         \<and> snd (main w) \<noteq> []
         \<and> is_red_error (hd (snd (main w)))
         \<and> list_all is_stdout (snd (main w))
         \<and> \<not> list_ex is_output_event (snd (main w))"
proof (cases "environ w ''AUTH_TOKEN''")
  case None
  show ?thesis
    unfolding main_no_token [OF None] by (simp add: is_red_error_def)
next
  case (Some token)
  show ?thesis
  proof (cases "length (argv w) = 2")
    case False
    show ?thesis
      unfolding main_bad_argv [OF Some False]
      by (simp add: is_red_error_def list_all_iff list_ex_iff image_iff)
  next
    case True
    with assms Some obtain e where e: "load_config w (argv w ! 1) = Inl e" "is_IOError e"
      by auto
    show ?thesis
      unfolding main_unreadable [OF Some True e] by (simp add: is_red_error_def)
  qed
qed


theorem C6_fatal_failures_exit_1_witness:
  "fst (main (example_world\<lparr>environ := Map.empty\<rparr>)) = SysExit 1
   \<and> fst (main (example_world\<lparr>argv := [''screenshot.py'']\<rparr>)) = SysExit 1
   \<and> fst (main (example_world\<lparr>argv := [''screenshot.py'', ''missing.yml'']\<rparr>)) = SysExit 1"
proof -
  have 1: "environ (example_world\<lparr>environ := Map.empty\<rparr>) ''AUTH_TOKEN'' = None
           \<or> length (argv (example_world\<lparr>environ := Map.empty\<rparr>)) \<noteq> 2
           \<or> (\<exists>e. load_config (example_world\<lparr>environ := Map.empty\<rparr>)
                       (argv (example_world\<lparr>environ := Map.empty\<rparr>) ! 1) = Inl e \<and> is_IOError e)"
    by simp
  have 2: "environ (example_world\<lparr>argv := [''screenshot.py'']\<rparr>) ''AUTH_TOKEN'' = None
           \<or> length (argv (example_world\<lparr>argv := [''screenshot.py'']\<rparr>)) \<noteq> 2
           \<or> (\<exists>e. load_config (example_world\<lparr>argv := [''screenshot.py'']\<rparr>)
                       (argv (example_world\<lparr>argv := [''screenshot.py'']\<rparr>) ! 1) = Inl e \<and> is_IOError e)"
    by simp
  have 3: "environ (example_world\<lparr>argv := [''screenshot.py'', ''missing.yml'']\<rparr>) ''AUTH_TOKEN'' = None
           \<or> length (argv (example_world\<lparr>argv := [''screenshot.py'', ''missing.yml'']\<rparr>)) \<noteq> 2
           \<or> (\<exists>e. load_config (example_world\<lparr>argv := [''screenshot.py'', ''missing.yml'']\<rparr>)
                       (argv (example_world\<lparr>argv := [''screenshot.py'', ''missing.yml'']\<rparr>) ! 1) = Inl e
                     \<and> is_IOError e)"
    by (simp add: example_world_def)
  from C6_fatal_failures_exit_1 [OF 1] C6_fatal_failures_exit_1 [OF 2] C6_fatal_failures_exit_1 [OF 3]
  show ?thesis by simp
qed

subsection \<open>Build information in the generated files\<close>

lemma ci_detect_absent:
  assumes "\<not> (env ''TRAVIS_BUILD_NUMBER'' \<noteq> None \<and> env ''TRAVIS_BUILD_WEB_URL'' \<noteq> None)"
    and "\<not> (env ''BUILD_ID'' \<noteq> None \<and> env ''BUILD_URL'' \<noteq> None)"
  shows "ci_detect env =
           \<lparr>CI_SYSTEM = None, CI_COMMIT = None, CI_BUILD_ID = None, CI_BUILD_URL = None\<rparr>"
  using assms unfolding ci_detect_def by (simp split: if_splits)

text \<open>The fixed bodies open with the blank line and the back link; none depends on CI data.\<close>

lemma readme_bodies_start:
  "prefix (nl @ ''[Back To Topology](../README.md)'' @ nl) site_readme_body
   \<and> prefix (nl @ ''[Back To Site](../README.md)'' @ nl) element_readme_body
   \<and> interface_readme_body = nl @ ''[Back To Element](../README.md)'' @ nl @ nl"
  by (simp add: site_readme_body_def element_readme_body_def interface_readme_body_def
      unlines_def)

text \<open>
  C9: when neither the two Travis variables nor the two Jenkins variables are all set (in
  particular when no CI variable is set), \<open>CI_SYSTEM\<close>, \<open>CI_COMMIT\<close>, \<open>CI_BUILD_ID\<close> and
  \<open>CI_BUILD_URL\<close> are \<^verbatim>\<open>None\<close> and the commit and job fragments of every README are
  empty: the site, element and interface README are the heading line followed at once by
  the fixed body, which starts with the blank line and the back link.
\<close>

theorem C9_no_ci_lines_without_ci:
  assumes "\<not> (env ''TRAVIS_BUILD_NUMBER'' \<noteq> None \<and> env ''TRAVIS_BUILD_WEB_URL'' \<noteq> None)"
    and "\<not> (env ''BUILD_ID'' \<noteq> None \<and> env ''BUILD_URL'' \<noteq> None)"
  shows "ci_detect env =
           \<lparr>CI_SYSTEM = None, CI_COMMIT = None, CI_BUILD_ID = None, CI_BUILD_URL = None\<rparr>
         \<and> ci_lines (ci_detect env) = []
         \<and> site_readme_head (ci_detect env) site =
             ''## Site: '' @ st_name site @ nl @ site_readme_body
         \<and> element_readme (ci_detect env) element =
             ''## Element: '' @ el_name element @ nl @ element_readme_body
         \<and> interface_readme_head (ci_detect env) element =
             ''## Element: '' @ el_name element @ '' Interfaces'' @ nl @ interface_readme_body"
proof -
  have l: "ci_lines \<lparr>CI_SYSTEM = None, CI_COMMIT = None, CI_BUILD_ID = None,
                     CI_BUILD_URL = None\<rparr> = []"
    by (simp add: ci_lines_def)
  show ?thesis
    by (simp add: l ci_detect_absent [OF assms] site_readme_head_def element_readme_def
        interface_readme_head_def)
qed

theorem C9_no_ci_lines_without_ci_witness:
  "ci_lines (ci_detect (environ example_world)) = []
   \<and> interface_readme_head (ci_detect (environ example_world)) example_element =
       ''## Element: '' @ el_name example_element @ '' Interfaces'' @ nl @ interface_readme_body"
proof -
  have 1: "\<not> (environ example_world ''TRAVIS_BUILD_NUMBER'' \<noteq> None
              \<and> environ example_world ''TRAVIS_BUILD_WEB_URL'' \<noteq> None)"
    by (simp add: example_world_def)
  have 2: "\<not> (environ example_world ''BUILD_ID'' \<noteq> None
              \<and> environ example_world ''BUILD_URL'' \<noteq> None)"
    by (simp add: example_world_def)
  from C9_no_ci_lines_without_ci [OF 1 2, of example_site example_element]
  show ?thesis by blast
qed

subsection \<open>Elements without interfaces\<close>

lemma capture_interfaces_zero:
  "get_interfaces w site_id element_id = [] \<Longrightarrow>
   capture_interfaces w site_id element_id element_directory tr = (None, [], tr)"
  by (simp add: capture_interfaces_def)

lemma in_set_ci_print: "x \<in> set tr \<Longrightarrow> x \<in> set (ci_print text e color tr)"
  by (simp add: ci_print_def Let_def)

lemma emit_element_interface_readme:
  "fst (emit_element w ci site element (md, tr)) = None \<Longrightarrow>
   WriteFile (''screenshots/'' @ st_fs_name site @ ''/'' @ el_fs_name element
              @ ''/interfaces/README.md'')
     (foldl (\<lambda>md interface. md @ interface_entry interface)
        (interface_readme_head ci element) (el_interfaces element))
   \<in> set (snd (snd (emit_element w ci site element (md, tr))))"
  by (auto simp: emit_element_def Let_def say_def open_write_def split: if_splits
      intro!: in_set_ci_print)

text \<open>
  C1: for an element with zero interfaces, no \<^verbatim>\<open>interfaces\<close> directory and no interface
  README are to be made, and the run is to proceed. The capture loop does skip the
  directory (\<open>capture_interfaces_zero\<close>), but the emitter opens
  \<^verbatim>\<open>interfaces/README.md\<close> for every element (\<open>emit_element_interface_readme\<close>). In the
  example run the element \<open>E1\<close> has no interface and no directory exists beforehand:
  \<^verbatim>\<open>open\<close> raises \<^verbatim>\<open>FileNotFoundError\<close>, nothing catches it, and the run ends before any
  README is written. In the same run over the tree an earlier run has left, the interface
  README of \<open>E1\<close> is written.
\<close>

theorem C1_interface_readme_without_interfaces:
  "get_interfaces example_world ''101'' ''201'' = []
   \<and> (case main example_world of
         (result, tr) \<Rightarrow>
           result = Uncaught (FileNotFoundError ''screenshots/S1/E1/interfaces/README.md'')
           \<and> list_all (\<lambda>ev. \<not> is_markdown_write ev) tr)
   \<and> get_interfaces example_rerun_world ''101'' ''201'' = []
   \<and> (case main example_rerun_world of
         (result, tr) \<Rightarrow>
           result = Completed
           \<and> WriteFile ''screenshots/S1/E1/interfaces/README.md''
                (interface_readme_head (ci_detect (environ example_rerun_world)) example_element)
               \<in> set tr)"
  by code_simp

end
